theory Spec2Isabelle
  imports Main
begin

section \<open>JavaScript values\<close>

text \<open>
  The values that flow through \<^verbatim>\<open>src/index.js\<close>: request bodies parsed by
  body-parser, the object literals handed to the queue, and the objects handed to
  \<^verbatim>\<open>res.json\<close>. Numbers of this program are integer byte counts, attempt counts
  and delays, so a finite number is an \<open>int\<close>; beside them stand the numbers that
  \<^verbatim>\<open>parseInt\<close> can give and an \<open>int\<close> cannot hold: \<^verbatim>\<open>NaN\<close>, the two infinities and
  \<^verbatim>\<open>-0\<close>. A string is the list of the bytes of its UTF-8 encoding. An object is the
  list of its properties in literal order, each name once.
\<close>

datatype js_value =
    JUndefined
  | JNull
  | JBool bool
  | JNum int
  | JNegZero
  | JNaN
  | JInfinity
  | JNegInfinity
  | JStr string
  | JObj "(string \<times> js_value) list"

type_synonym js_object = "(string \<times> js_value) list"

text \<open>Reading a property of an object: \<^verbatim>\<open>undefined\<close> when the object has none of that name.\<close>

definition getprop :: "js_object \<Rightarrow> string \<Rightarrow> js_value" where
  "getprop obj k = (case map_of obj k of None \<Rightarrow> JUndefined | Some v \<Rightarrow> v)"

text \<open>The names of the properties of a value that is an object.\<close>

fun keys :: "js_value \<Rightarrow> string list" where
  "keys (JObj kvs) = map fst kvs"
| "keys _ = []"

fun get :: "js_value \<Rightarrow> string \<Rightarrow> js_value" where
  "get (JObj kvs) k = getprop kvs k"
| "get _ k = JUndefined"

text \<open>JavaScript's ToBoolean, and \<^verbatim>\<open>a || b\<close> on top of it.\<close>

fun truthy :: "js_value \<Rightarrow> bool" where
  "truthy JUndefined = False"
| "truthy JNull = False"
| "truthy (JBool b) = b"
| "truthy (JNum n) = (n \<noteq> 0)"
| "truthy JNegZero = False"
| "truthy JNaN = False"
| "truthy JInfinity = True"
| "truthy JNegInfinity = True"
| "truthy (JStr s) = (s \<noteq> [])"
| "truthy (JObj kvs) = True"

definition js_or :: "js_value \<Rightarrow> js_value \<Rightarrow> js_value" where
  "js_or a b = (if truthy a then a else b)"

subsection \<open>parseInt\<close>

text \<open>
  \<^verbatim>\<open>parseInt(s)\<close> with no radix, as ECMAScript defines it and V8 computes it: leading
  white space is skipped, one sign is read, a prefix \<^verbatim>\<open>0x\<close> or \<^verbatim>\<open>0X\<close> selects radix 16
  (radix 10 otherwise), the longest prefix of digits of that radix is the integer, and a
  string with no such digit gives \<^verbatim>\<open>NaN\<close>. The result is a Number, so the integer is
  rounded to the nearest double, ties to even, and to an infinity from \<^verbatim>\<open>2^1024\<close> on.

  White space is ECMAScript's \<^verbatim>\<open>WhiteSpace\<close> and \<^verbatim>\<open>LineTerminator\<close>: the code points
  U+0009 to U+000D, U+0020, U+00A0, U+1680, U+2000 to U+200A, U+2028, U+2029, U+202F,
  U+205F, U+3000 and U+FEFF. \<open>space_width\<close> is the number of bytes that such a code
  point takes at the head of a string in UTF-8, or 0 when the string starts with none.
\<close>

definition ascii_space :: "nat \<Rightarrow> bool" where
  "ascii_space a = ((0x09 \<le> a \<and> a \<le> 0x0D) \<or> a = 0x20)"

definition wide_space :: "nat \<Rightarrow> nat \<Rightarrow> nat \<Rightarrow> bool" where
  "wide_space a b c =
     ((a = 0xE1 \<and> b = 0x9A \<and> c = 0x80)
      \<or> (a = 0xE2 \<and> b = 0x80
          \<and> ((0x80 \<le> c \<and> c \<le> 0x8A) \<or> c = 0xA8 \<or> c = 0xA9 \<or> c = 0xAF))
      \<or> (a = 0xE2 \<and> b = 0x81 \<and> c = 0x9F)
      \<or> (a = 0xE3 \<and> b = 0x80 \<and> c = 0x80)
      \<or> (a = 0xEF \<and> b = 0xBB \<and> c = 0xBF))"

fun space_width :: "nat list \<Rightarrow> nat" where
  "space_width [] = 0"
| "space_width [a] = (if ascii_space a then 1 else 0)"
| "space_width [a, b] =
     (if ascii_space a then 1 else if a = 0xC2 \<and> b = 0xA0 then 2 else 0)"
| "space_width (a # b # c # _) =
     (if ascii_space a then 1
      else if a = 0xC2 \<and> b = 0xA0 then 2
      else if wide_space a b c then 3
      else 0)"

fun skip_space :: "string \<Rightarrow> string" where
  "skip_space [] = []"
| "skip_space (c # cs) =
     (let w = space_width (map of_char (take 3 (c # cs)))
      in if w = 0 then c # cs else skip_space (drop (w - 1) cs))"

definition digit_val :: "char \<Rightarrow> nat option" where
  "digit_val c =
     (let n = (of_char c :: nat)
      in if 48 \<le> n \<and> n \<le> 57 then Some (n - 48)
         else if 97 \<le> n \<and> n \<le> 102 then Some (n - 87)
         else if 65 \<le> n \<and> n \<le> 70 then Some (n - 55)
         else None)"

fun digits_prefix :: "nat \<Rightarrow> string \<Rightarrow> nat list" where
  "digits_prefix r [] = []"
| "digits_prefix r (c # cs) =
     (case digit_val c of
        None \<Rightarrow> []
      | Some d \<Rightarrow> if d < r then d # digits_prefix r cs else [])"

definition to_number :: "nat \<Rightarrow> nat list \<Rightarrow> int" where
  "to_number r ds = foldl (\<lambda>a d. a * int r + int d) 0 ds"

text \<open>
  The nearest double of a non-negative integer, \<open>None\<close> when that is infinity. An integer
  below \<^verbatim>\<open>2^53\<close> is a double. A longer one keeps its 53 leading bits \<open>q\<close>; the \<open>k\<close>
  bits \<open>r\<close> that are cut off round \<open>q\<close> up when they are more than half a unit, or
  exactly half and \<open>q\<close> is odd.
\<close>

function bit_length :: "int \<Rightarrow> nat" where
  "bit_length n = (if n \<le> 0 then 0 else Suc (bit_length (n div 2)))"
  by pat_completeness auto
termination
  by (relation "measure nat") auto

declare bit_length.simps [simp del]

definition to_double :: "int \<Rightarrow> int option" where
  "to_double n =
     (if n < 2 ^ 53 then Some n
      else
        let k = bit_length n - 53;
            q = n div 2 ^ k;
            r = n mod 2 ^ k;
            h = 2 ^ (k - 1);
            q' = (if h < r \<or> (r = h \<and> odd q) then q + 1 else q)
        in if 2 ^ 1024 \<le> q' * 2 ^ k then None else Some (q' * 2 ^ k))"

definition parseInt :: "string \<Rightarrow> js_value" where
  "parseInt s =
     (let s1 = skip_space s;
          neg = (case s1 of [] \<Rightarrow> False | c # _ \<Rightarrow> c = CHR ''-'');
          s2 = (case s1 of [] \<Rightarrow> [] | c # cs \<Rightarrow> if c = CHR ''+'' \<or> c = CHR ''-'' then cs else s1);
          hex = (take 2 s2 = ''0x'' \<or> take 2 s2 = ''0X'');
          r = (if hex then 16 else 10);
          s3 = (if hex then drop 2 s2 else s2);
          z = digits_prefix r s3
      in if z = [] then JNaN
         else case to_double (to_number r z) of
                None \<Rightarrow> if neg then JNegInfinity else JInfinity
              | Some m \<Rightarrow> if m = 0 \<and> neg then JNegZero
                          else JNum (if neg then - m else m))"

section \<open>The process environment\<close>

text \<open>
  \<^verbatim>\<open>process.env\<close>: a variable is unset or holds a string, which Node decodes from the
  UTF-8 bytes of the environment.
  \<^verbatim>\<open>process.env.X || d\<close> is \<open>d\<close> when \<open>X\<close> is unset or the empty string.
\<close>

type_synonym env = "string \<rightharpoonup> string"

definition env_or :: "env \<Rightarrow> string \<Rightarrow> string \<Rightarrow> string" where
  "env_or e x d = (case e x of None \<Rightarrow> d | Some s \<Rightarrow> if s = [] then d else s)"

section \<open>Jobs and responses\<close>

text \<open>
  A job as the handlers see it: \<^verbatim>\<open>job.id\<close>, \<^verbatim>\<open>job.data\<close>, and what
  \<^verbatim>\<open>job.progress()\<close> and \<^verbatim>\<open>job.getState()\<close> resolve to. The name and the options are
  what \<^verbatim>\<open>queue.add\<close> was called with.
\<close>

record job =
  job_id :: string
  job_name :: string
  data :: js_value
  opts :: js_value
  progress :: js_value
  getState :: string

text \<open>An HTTP response: \<^verbatim>\<open>res.json(x)\<close> is status 200, \<^verbatim>\<open>res.status(n).json(x)\<close> status n.\<close>

record response =
  status :: nat
  json :: js_value

section \<open>The submission endpoint\<close>

text \<open>
  \<^verbatim>\<open>POST /publish/youtube\<close>. The handler runs behind \<^verbatim>\<open>bodyParser.json()\<close>, so it sees
  a request only when that parser let it through, and the body here is the object the
  parser made of the JSON sent. A request whose body is not JSON is answered by the parser
  and is no input of the handler. The two object literals of the call to \<^verbatim>\<open>queue.add\<close>:
  five properties destructured from the request body, \<^verbatim>\<open>uploadedBytes: 0\<close>, the chunk
  size from the environment, and the options.
\<close>

definition job_data :: "env \<Rightarrow> js_object \<Rightarrow> js_value" where
  "job_data e body =
     JObj [(''accountId'', getprop body ''accountId''),
           (''filePath'', getprop body ''filePath''),
           (''thumbnailPath'', getprop body ''thumbnailPath''),
           (''metadata'', getprop body ''metadata''),
           (''idempotencyKey'', getprop body ''idempotencyKey''),
           (''uploadedBytes'', JNum 0),
           (''chunkSize'', parseInt (env_or e ''CHUNK_SIZE'' ''8388608''))]"

definition job_opts :: "env \<Rightarrow> js_value" where
  "job_opts e =
     JObj [(''attempts'', parseInt (env_or e ''MAX_RETRIES'' ''5'')),
           (''backoff'', JObj [(''type'', JStr ''exponential''), (''delay'', JNum 2000)])]"

text \<open>
  The queue client comes from \<^verbatim>\<open>initQueue\<close> of \<^verbatim>\<open>./queue.js\<close>, which is not part of
  the snapshot, so the handler takes \<^verbatim>\<open>queue.add\<close> as a parameter over any queue state
  \<open>'q\<close>: it resolves to a job (\<open>Inr\<close>) or throws an error with a message (\<open>Inl\<close>), and
  leaves a queue state either way. The \<^verbatim>\<open>try\<close>/\<^verbatim>\<open>catch\<close> turns a throw into status 400.
\<close>

type_synonym 'q queue_add = "string \<Rightarrow> js_value \<Rightarrow> js_value \<Rightarrow> 'q \<Rightarrow> (string + job) \<times> 'q"

definition post_publish_youtube :: "'q queue_add \<Rightarrow> env \<Rightarrow> js_object \<Rightarrow> 'q \<Rightarrow> response \<times> 'q" where
  "post_publish_youtube add e body q =
     (case add ''youtube-upload'' (job_data e body) (job_opts e) q of
        (Inr j, q') \<Rightarrow> (\<lparr>status = 200, json = JObj [(''jobId'', JStr (job_id j))]\<rparr>, q')
      | (Inl msg, q') \<Rightarrow> (\<lparr>status = 400, json = JObj [(''error'', JStr msg)]\<rparr>, q'))"

section \<open>The status endpoint\<close>

text \<open>
  \<^verbatim>\<open>GET /jobs/:id\<close>, over \<^verbatim>\<open>queue.getJob\<close>, which resolves to a job or to nothing.
\<close>

definition get_jobs_id :: "('q \<Rightarrow> string \<Rightarrow> job option) \<Rightarrow> 'q \<Rightarrow> string \<Rightarrow> response" where
  "get_jobs_id getJob q i =
     (case getJob q i of
        None \<Rightarrow> \<lparr>status = 404, json = JObj [(''error'', JStr ''Job not found'')]\<rparr>
      | Some j \<Rightarrow>
          \<lparr>status = 200,
           json = JObj [(''id'', JStr (job_id j)),
                        (''state'', JStr (getState j)),
                        (''progress'', js_or (progress j) (JNum 0)),
                        (''data'', data j)]\<rparr>)"

section \<open>An in-memory job queue\<close>

text \<open>
  Modelled from the spec: the Job Queue behind \<^verbatim>\<open>./queue.js\<close>, which is missing from
  the snapshot. The spec gives its contract as \<^verbatim>\<open>enqueue(jobSpec, options) -> jobId\<close>
  with a queue-assigned unique job identifier, and a job is created on submission in the
  queued state. The queue keeps a counter and the jobs by identifier; a new job gets the
  next number, in decimal, as its identifier, and its progress is 0.
\<close>

record queue =
  counter :: nat
  jobs :: "string \<rightharpoonup> job"

definition digit_char :: "nat \<Rightarrow> char" where
  "digit_char d = ''0123456789'' ! d"

fun show_nat :: "nat \<Rightarrow> string" where
  "show_nat n =
     (if n < 10 then [digit_char n]
      else show_nat (n div 10) @ [digit_char (n mod 10)])"

declare show_nat.simps [simp del]

definition queue_add :: "queue queue_add" where
  "queue_add name d opt q =
     (let i = show_nat (Suc (counter q));
          j = \<lparr>job_id = i, job_name = name, data = d, opts = opt,
               progress = JNum 0, getState = ''queued''\<rparr>
      in (Inr j, q\<lparr>counter := Suc (counter q), jobs := (jobs q)(i \<mapsto> j)\<rparr>))"

definition queue_getJob :: "queue \<Rightarrow> string \<Rightarrow> job option" where
  "queue_getJob q i = jobs q i"

text \<open>Every identifier in use was handed out by the counter.\<close>

definition queue_ok :: "queue \<Rightarrow> bool" where
  "queue_ok q = (\<forall>i \<in> dom (jobs q). \<exists>n. 0 < n \<and> n \<le> counter q \<and> i = show_nat n)"

section \<open>Progress reports\<close>

text \<open>
  Modelled from the spec: the queue operation \<^verbatim>\<open>reportProgress(jobId, bytesUploaded)\<close>,
  which no file of the snapshot implements. The spec says of it: the uploaded-byte offset
  of a job is monotonically non-decreasing and never exceeds the total file size; a report
  lower than the recorded value is rejected or clamped; and the call returns an
  acknowledgement, so that the caller can see a rejection. The policy says which of the
  two the queue does with a report that is out of range: reject it, or clamp it into the
  range from the recorded offset to the total size.
\<close>

record upload =
  uploadedBytes :: int
  totalBytes :: int

datatype policy = Reject | Clamp

datatype ack = Accepted | Rejected | Clamped

definition reportProgress :: "policy \<Rightarrow> upload \<Rightarrow> int \<Rightarrow> ack \<times> upload" where
  "reportProgress pol u b =
     (if b < uploadedBytes u then
        (case pol of Reject \<Rightarrow> (Rejected, u) | Clamp \<Rightarrow> (Clamped, u))
      else if totalBytes u < b then
        (case pol of
           Reject \<Rightarrow> (Rejected, u)
         | Clamp \<Rightarrow> (Clamped, u\<lparr>uploadedBytes := totalBytes u\<rparr>))
      else (Accepted, u\<lparr>uploadedBytes := b\<rparr>))"

text \<open>The states of one job after each of a sequence of reports.\<close>

fun reports :: "policy \<Rightarrow> upload \<Rightarrow> int list \<Rightarrow> upload list" where
  "reports pol u [] = []"
| "reports pol u (b # bs) =
     (let u' = snd (reportProgress pol u b) in u' # reports pol u' bs)"

section \<open>Sample requests and queues\<close>

definition no_env :: env where
  "no_env = Map.empty"

definition empty_queue :: queue where
  "empty_queue = \<lparr>counter = 0, jobs = Map.empty\<rparr>"

text \<open>A job that was submitted with the idempotency key \<^verbatim>\<open>key-1\<close> and has completed.\<close>

definition completed_job :: job where
  "completed_job =
     \<lparr>job_id = ''1'', job_name = ''youtube-upload'',
      data = JObj [(''accountId'', JStr ''acct-1''),
                   (''filePath'', JStr ''/videos/a.mp4''),
                   (''thumbnailPath'', JUndefined),
                   (''metadata'', JUndefined),
                   (''idempotencyKey'', JStr ''key-1''),
                   (''uploadedBytes'', JNum 0),
                   (''chunkSize'', JNum 8388608)],
      opts = JObj [(''attempts'', JNum 5),
                   (''backoff'', JObj [(''type'', JStr ''exponential''), (''delay'', JNum 2000)])],
      progress = JNum 100, getState = ''completed''\<rparr>"

definition queue_one :: queue where
  "queue_one = \<lparr>counter = 1, jobs = [''1'' \<mapsto> completed_job]\<rparr>"

text \<open>The same submission again, with the same idempotency key.\<close>

definition repeat_submission :: js_object where
  "repeat_submission =
     [(''accountId'', JStr ''acct-1''),
      (''filePath'', JStr ''/videos/a.mp4''),
      (''idempotencyKey'', JStr ''key-1'')]"

text \<open>A submission with neither account identifier nor file location: \<^verbatim>\<open>{}\<close>.\<close>

definition empty_submission :: js_object where
  "empty_submission = []"

text \<open>A submission with an account identifier and no file location.\<close>

definition partial_submission :: js_object where
  "partial_submission = [(''accountId'', JStr ''acct-1'')]"

text \<open>A queue client whose connection is closed: \<^verbatim>\<open>queue.add\<close> throws.\<close>

definition closed_add :: "queue queue_add" where
  "closed_add name d opt q = (Inl ''Connection is closed.'', q)"

text \<open>A submission that asks for chunks of 1 MiB.\<close>

definition chunked_submission :: js_object where
  "chunked_submission =
     [(''accountId'', JStr ''acct-1''),
      (''filePath'', JStr ''/videos/a.mp4''),
      (''chunkSize'', JNum 1048576)]"

text \<open>A submission that claims 500 bytes are uploaded already.\<close>

definition resumed_submission :: js_object where
  "resumed_submission =
     [(''accountId'', JStr ''acct-1''),
      (''filePath'', JStr ''/videos/a.mp4''),
      (''uploadedBytes'', JNum 500)]"

text \<open>A job that the queue holds without a progress value.\<close>

definition fresh_job :: job where
  "fresh_job =
     \<lparr>job_id = ''7'', job_name = ''youtube-upload'', data = JObj [],
      opts = JObj [], progress = JUndefined, getState = ''waiting''\<rparr>"

definition queue_seven :: queue where
  "queue_seven = \<lparr>counter = 7, jobs = [''7'' \<mapsto> fresh_job]\<rparr>"

section \<open>Job identifiers are distinct\<close>

lemma show_nat_nonempty: "show_nat n \<noteq> []"
  by (subst show_nat.simps) simp

lemma digit_char_inj:
  assumes "a < 10" and "b < 10" and "digit_char a = digit_char b"
  shows "a = b"
proof -
  have "distinct ''0123456789''" by simp
  moreover have "a < length ''0123456789''" and "b < length ''0123456789''"
    using assms(1,2) by simp_all
  ultimately show ?thesis
    using assms(3) unfolding digit_char_def by (simp only: nth_eq_iff_index_eq)
qed

lemma show_nat_small: "n < 10 \<Longrightarrow> show_nat n = [digit_char n]"
  by (subst show_nat.simps) simp

lemma show_nat_large: "\<not> n < 10 \<Longrightarrow> show_nat n = show_nat (n div 10) @ [digit_char (n mod 10)]"
  by (subst show_nat.simps) simp

lemma show_nat_large_length:
  assumes "\<not> n < 10"
  shows "2 \<le> length (show_nat n)"
proof -
  have "length (show_nat n) = length (show_nat (n div 10)) + 1"
    by (simp only: show_nat_large [OF assms] length_append list.size)
  moreover have "show_nat (n div 10) \<noteq> []"
    by (rule show_nat_nonempty)
  ultimately show ?thesis by (cases "show_nat (n div 10)") simp_all
qed

lemma show_nat_inj: "show_nat n = show_nat m \<Longrightarrow> n = m"
proof (induction n arbitrary: m rule: show_nat.induct)
  case (1 n)
  show ?case
  proof (cases "n < 10")
    case n: True
    show ?thesis
    proof (cases "m < 10")
      case True
      with n "1.prems" have "digit_char n = digit_char m"
        by (simp add: show_nat_small)
      with n True show ?thesis by (rule digit_char_inj)
    next
      case False
      then have "2 \<le> length (show_nat m)" by (rule show_nat_large_length)
      moreover from n have "length (show_nat n) = 1" by (simp add: show_nat_small)
      ultimately show ?thesis using "1.prems" by simp
    qed
  next
    case n: False
    show ?thesis
    proof (cases "m < 10")
      case True
      from n have "2 \<le> length (show_nat n)" by (rule show_nat_large_length)
      moreover from True have "length (show_nat m) = 1" by (simp add: show_nat_small)
      ultimately show ?thesis using "1.prems" by simp
    next
      case False
      from "1.prems" have "show_nat (n div 10) @ [digit_char (n mod 10)]
          = show_nat (m div 10) @ [digit_char (m mod 10)]"
        by (simp only: show_nat_large [OF n] show_nat_large [OF False])
      then have a: "show_nat (n div 10) = show_nat (m div 10)"
        and b: "digit_char (n mod 10) = digit_char (m mod 10)"
        by simp_all
      from "1.IH" [OF n a] have "n div 10 = m div 10" .
      moreover have "n mod 10 = m mod 10"
        by (rule digit_char_inj [OF _ _ b]) simp_all
      ultimately have "n div 10 * 10 + n mod 10 = m div 10 * 10 + m mod 10" by simp
      then show ?thesis by (simp only: div_mult_mod_eq)
    qed
  qed
qed

section \<open>Facts about the pieces\<close>

lemma parseInt_default_chunk: "parseInt ''8388608'' = JNum 8388608"
  by (simp add: parseInt_def ascii_space_def wide_space_def digit_val_def to_number_def
      to_double_def)

lemma parseInt_default_attempts: "parseInt ''5'' = JNum 5"
  by (simp add: parseInt_def ascii_space_def digit_val_def to_number_def to_double_def)

text \<open>
  \<^verbatim>\<open>parseInt\<close> where it is not the plain reading of the digits: \<^verbatim>\<open>2^53 + 1\<close> is
  rounded to \<^verbatim>\<open>2^53\<close>, a no-break space (U+00A0) before the digits is skipped, and
  the next-line character (U+0085) is not white space.
\<close>

lemma parseInt_rounds_to_double: "parseInt ''9007199254740993'' = JNum 9007199254740992"
  by (simp add: parseInt_def ascii_space_def wide_space_def digit_val_def to_number_def
      to_double_def bit_length.simps Let_def)

text \<open>From \<^verbatim>\<open>2^1024\<close> on the nearest double is infinity.\<close>

lemma bit_length_double: "0 < n \<Longrightarrow> bit_length (2 * n) = Suc (bit_length n)"
  by (subst bit_length.simps) simp

lemma bit_length_power: "bit_length (2 ^ k) = Suc k"
proof (induction k)
  case 0
  show ?case by (simp add: bit_length.simps)
next
  case (Suc k)
  have "bit_length (2 * 2 ^ k) = Suc (bit_length (2 ^ k))"
    by (rule bit_length_double) simp
  with Suc show ?case by simp
qed

lemma to_double_overflow: "to_double (2 ^ 1024) = None"
proof -
  have k: "bit_length (2 ^ 1024) - 53 = 972" by (simp only: bit_length_power)
  have q: "(2::int) ^ 1024 div 2 ^ 972 = 2 ^ 52"
    by (simp add: power_diff [symmetric])
  have r: "(2::int) ^ 1024 mod 2 ^ 972 = 0"
    by (simp add: mod_eq_0_iff_dvd le_imp_power_dvd)
  have m: "(2::int) ^ 52 * 2 ^ 972 = 2 ^ 1024"
    by (simp add: power_add [symmetric])
  have b: "\<not> (2::int) ^ 1024 < 2 ^ 53" by simp
  show ?thesis
    unfolding to_double_def Let_def k q r using b by (simp add: m)
qed

lemma parseInt_skips_no_break_space:
  "parseInt [CHR 0xC2, CHR 0xA0, CHR ''4'', CHR ''2''] = JNum 42"
  by (simp add: parseInt_def ascii_space_def wide_space_def digit_val_def to_number_def
      to_double_def)

lemma parseInt_next_line_no_space:
  "parseInt [CHR 0xC2, CHR 0x85, CHR ''4'', CHR ''2''] = JNaN"
  by (simp add: parseInt_def ascii_space_def wide_space_def digit_val_def)

lemma env_or_unset: "e x = None \<Longrightarrow> env_or e x d = d"
  by (simp add: env_or_def)

lemma post_queue_add_response:
  "fst (post_publish_youtube queue_add e body q) =
     \<lparr>status = 200, json = JObj [(''jobId'', JStr (show_nat (Suc (counter q))))]\<rparr>"
  by (simp add: post_publish_youtube_def queue_add_def Let_def)

lemma post_queue_add_getJob:
  "queue_getJob (snd (post_publish_youtube queue_add e body q)) i =
     (if i = show_nat (Suc (counter q))
      then Some \<lparr>job_id = i, job_name = ''youtube-upload'', data = job_data e body,
                  opts = job_opts e, progress = JNum 0, getState = ''queued''\<rparr>
      else queue_getJob q i)"
  by (simp add: post_publish_youtube_def queue_add_def queue_getJob_def Let_def)

lemma post_queue_add_counter:
  "counter (snd (post_publish_youtube queue_add e body q)) = Suc (counter q)"
  by (simp add: post_publish_youtube_def queue_add_def Let_def)

lemma queue_ok_fresh:
  assumes "queue_ok q"
  shows "queue_getJob q (show_nat (Suc (counter q))) = None"
proof (rule ccontr)
  assume "queue_getJob q (show_nat (Suc (counter q))) \<noteq> None"
  then have "show_nat (Suc (counter q)) \<in> dom (jobs q)"
    by (simp add: queue_getJob_def dom_def)
  with assms obtain n where n: "n \<le> counter q" and "show_nat (Suc (counter q)) = show_nat n"
    unfolding queue_ok_def by blast
  then have "Suc (counter q) = n" by (simp only: show_nat_inj)
  with n show False by simp
qed

lemma queue_ok_post:
  assumes "queue_ok q"
  shows "queue_ok (snd (post_publish_youtube queue_add e body q))"
  unfolding queue_ok_def
proof
  fix i
  assume "i \<in> dom (jobs (snd (post_publish_youtube queue_add e body q)))"
  then have i: "queue_getJob (snd (post_publish_youtube queue_add e body q)) i \<noteq> None"
    by (simp add: queue_getJob_def dom_def)
  show "\<exists>n. 0 < n \<and> n \<le> counter (snd (post_publish_youtube queue_add e body q)) \<and> i = show_nat n"
  proof (cases "i = show_nat (Suc (counter q))")
    case True
    then show ?thesis by (intro exI [of _ "Suc (counter q)"]) (simp add: post_queue_add_counter)
  next
    case False
    with i have "queue_getJob q i \<noteq> None"
      by (simp add: post_queue_add_getJob)
    then have "i \<in> dom (jobs q)"
      by (simp add: queue_getJob_def dom_def)
    with assms obtain n where "0 < n" "n \<le> counter q" "i = show_nat n"
      unfolding queue_ok_def by blast
    then show ?thesis by (intro exI [of _ n]) (simp add: post_queue_add_counter)
  qed
qed

lemma queue_ok_empty_queue: "queue_ok empty_queue"
  by (simp add: queue_ok_def empty_queue_def)

lemma queue_ok_queue_one: "queue_ok queue_one"
  unfolding queue_ok_def
proof
  fix i assume "i \<in> dom (jobs queue_one)"
  then have "i = ''1''" by (simp add: queue_one_def split: if_splits)
  then show "\<exists>n. 0 < n \<and> n \<le> counter queue_one \<and> i = show_nat n"
    by (intro exI [of _ 1]) (simp add: queue_one_def show_nat.simps digit_char_def)
qed

lemma show_nat_one: "show_nat (Suc 0) = ''1''"
  by (simp add: show_nat.simps digit_char_def)

lemma show_nat_two: "show_nat (Suc (Suc 0)) = ''2''"
  by (simp add: show_nat.simps digit_char_def)

section \<open>Progress reports stay in range\<close>

lemma reportProgress_step:
  assumes "uploadedBytes u \<le> totalBytes u"
  shows "uploadedBytes u \<le> uploadedBytes (snd (reportProgress pol u b))
       \<and> uploadedBytes (snd (reportProgress pol u b)) \<le> totalBytes (snd (reportProgress pol u b))
       \<and> totalBytes (snd (reportProgress pol u b)) = totalBytes u"
  using assms by (cases pol) (simp_all add: reportProgress_def)

lemma reports_bounds:
  assumes "uploadedBytes u \<le> totalBytes u"
  shows "\<forall>v \<in> set (reports pol u bs).
           uploadedBytes u \<le> uploadedBytes v \<and> uploadedBytes v \<le> totalBytes v
           \<and> totalBytes v = totalBytes u"
  using assms
proof (induction bs arbitrary: u)
  case Nil
  show ?case by simp
next
  case (Cons b bs)
  let ?u = "snd (reportProgress pol u b)"
  from reportProgress_step [OF Cons.prems, of pol b]
  have s: "uploadedBytes u \<le> uploadedBytes ?u" "uploadedBytes ?u \<le> totalBytes ?u"
    "totalBytes ?u = totalBytes u" by simp_all
  from Cons.IH [OF s(2)]
  have "\<forall>v \<in> set (reports pol ?u bs).
           uploadedBytes ?u \<le> uploadedBytes v \<and> uploadedBytes v \<le> totalBytes v
           \<and> totalBytes v = totalBytes ?u" .
  with s show ?case by (auto simp add: Let_def)
qed

lemma reports_sorted:
  assumes "uploadedBytes u \<le> totalBytes u"
  shows "sorted (map uploadedBytes (u # reports pol u bs))"
  using assms
proof (induction bs arbitrary: u)
  case Nil
  show ?case by simp
next
  case (Cons b bs)
  let ?u = "snd (reportProgress pol u b)"
  from reportProgress_step [OF Cons.prems, of pol b]
  have s: "uploadedBytes u \<le> uploadedBytes ?u" "uploadedBytes ?u \<le> totalBytes ?u"
    by simp_all
  from Cons.IH [OF s(2)] have t: "sorted (map uploadedBytes (?u # reports pol ?u bs))" .
  from reports_bounds [OF s(2), of pol bs]
  have "\<forall>v \<in> set (reports pol ?u bs). uploadedBytes ?u \<le> uploadedBytes v" by blast
  with s(1) have "\<forall>v \<in> set (reports pol ?u bs). uploadedBytes u \<le> uploadedBytes v"
    by fastforce
  with s(1) t show ?case by (simp add: Let_def)
qed

lemma lower_report_kept_out:
  assumes "b < uploadedBytes u"
  shows "snd (reportProgress pol u b) = u \<and> fst (reportProgress pol u b) \<noteq> Accepted"
  using assms by (cases pol) (simp_all add: reportProgress_def)

section \<open>Submissions and the queue\<close>

text \<open>
  C1, as the handler has it. The submission endpoint reads no idempotency record and looks
  at no existing job. A submission whose idempotency key is that of a completed job is
  enqueued like any other: the answer is status 200 with the identifier of a new job, that
  identifier was not in use, the completed job stays as it was, the new job carries the
  same idempotency key, and the identifiers of the queue stay those its counter gave out.
\<close>

theorem duplicate_submission_enqueued_again:
  assumes ok: "queue_ok q"
    and old: "queue_getJob q i0 = Some j0"
    and fin: "getState j0 = ''completed''"
    and same: "get (data j0) ''idempotencyKey'' = getprop body ''idempotencyKey''"
  shows "fst (post_publish_youtube queue_add e body q) =
           \<lparr>status = 200, json = JObj [(''jobId'', JStr (show_nat (Suc (counter q))))]\<rparr>
       \<and> show_nat (Suc (counter q)) \<noteq> i0
       \<and> queue_getJob q (show_nat (Suc (counter q))) = None
       \<and> queue_getJob (snd (post_publish_youtube queue_add e body q)) i0 = Some j0
       \<and> map_option (\<lambda>j. get (data j) ''idempotencyKey'')
            (queue_getJob (snd (post_publish_youtube queue_add e body q))
               (show_nat (Suc (counter q))))
          = Some (getprop body ''idempotencyKey'')
       \<and> queue_ok (snd (post_publish_youtube queue_add e body q))"
proof -
  have fresh: "queue_getJob q (show_nat (Suc (counter q))) = None"
    using ok by (rule queue_ok_fresh)
  with old have ne: "show_nat (Suc (counter q)) \<noteq> i0" by auto
  have "queue_getJob (snd (post_publish_youtube queue_add e body q)) i0 = Some j0"
    using ne old by (simp add: post_queue_add_getJob)
  moreover have "map_option (\<lambda>j. get (data j) ''idempotencyKey'')
            (queue_getJob (snd (post_publish_youtube queue_add e body q))
               (show_nat (Suc (counter q))))
          = Some (getprop body ''idempotencyKey'')"
    by (simp add: post_queue_add_getJob job_data_def getprop_def)
  moreover have "queue_ok (snd (post_publish_youtube queue_add e body q))"
    using ok by (rule queue_ok_post)
  ultimately show ?thesis
    using fresh ne by (simp add: post_queue_add_response)
qed

text \<open>
  The theorem at the queue that holds the completed job \<open>1\<close> with key \<^verbatim>\<open>key-1\<close>, and a
  second submission with that key: job \<open>2\<close> is created.
\<close>

theorem duplicate_submission_enqueued_again_witness:
  "queue_ok queue_one
   \<and> queue_getJob queue_one ''1'' = Some completed_job
   \<and> getState completed_job = ''completed''
   \<and> get (data completed_job) ''idempotencyKey'' = JStr ''key-1''
   \<and> getprop repeat_submission ''idempotencyKey'' = JStr ''key-1''
   \<and> fst (post_publish_youtube queue_add no_env repeat_submission queue_one) =
        \<lparr>status = 200, json = JObj [(''jobId'', JStr ''2'')]\<rparr>
   \<and> queue_getJob queue_one ''2'' = None
   \<and> queue_getJob (snd (post_publish_youtube queue_add no_env repeat_submission queue_one)) ''1''
        = Some completed_job
   \<and> map_option (\<lambda>j. get (data j) ''idempotencyKey'')
        (queue_getJob (snd (post_publish_youtube queue_add no_env repeat_submission queue_one)) ''2'')
        = Some (JStr ''key-1'')"
proof -
  have h1: "queue_getJob queue_one ''1'' = Some completed_job"
    by (simp add: queue_getJob_def queue_one_def)
  have h2: "getState completed_job = ''completed''"
    by (simp add: completed_job_def)
  have k1: "get (data completed_job) ''idempotencyKey'' = JStr ''key-1''"
    by (simp add: completed_job_def getprop_def)
  have k2: "getprop repeat_submission ''idempotencyKey'' = JStr ''key-1''"
    by (simp add: repeat_submission_def getprop_def)
  have h3: "get (data completed_job) ''idempotencyKey'' = getprop repeat_submission ''idempotencyKey''"
    by (simp only: k1 k2)
  have n: "show_nat (Suc (counter queue_one)) = ''2''"
    by (simp add: queue_one_def show_nat.simps digit_char_def)
  show ?thesis
    using duplicate_submission_enqueued_again [OF queue_ok_queue_one h1 h2 h3, of no_env]
      queue_ok_queue_one h1 h2 k1 k2
    by (simp only: n)
qed

text \<open>
  C1 as the spec states it fails there: the submission does not short-circuit. Before
  it the queue has no job \<open>2\<close>, after it the queue has one, the queue has changed, and
  the answer is the new identifier \<open>2\<close>, not the result of job \<open>1\<close>.
\<close>

theorem duplicate_submission_counterexample:
  "queue_getJob queue_one ''1'' = Some completed_job
   \<and> getState completed_job = ''completed''
   \<and> get (data completed_job) ''idempotencyKey'' = getprop repeat_submission ''idempotencyKey''
   \<and> queue_getJob queue_one ''2'' = None
   \<and> queue_getJob (snd (post_publish_youtube queue_add no_env repeat_submission queue_one)) ''2''
        \<noteq> None
   \<and> json (fst (post_publish_youtube queue_add no_env repeat_submission queue_one))
        = JObj [(''jobId'', JStr ''2'')]
   \<and> snd (post_publish_youtube queue_add no_env repeat_submission queue_one) \<noteq> queue_one"
proof -
  have n: "show_nat (Suc (counter queue_one)) = ''2''"
    by (simp add: queue_one_def show_nat.simps digit_char_def)
  have a: "queue_getJob queue_one ''1'' = Some completed_job"
    by (simp add: queue_getJob_def queue_one_def)
  have b: "getState completed_job = ''completed''"
    by (simp add: completed_job_def)
  have c: "get (data completed_job) ''idempotencyKey'' = getprop repeat_submission ''idempotencyKey''"
    by (simp add: completed_job_def repeat_submission_def getprop_def)
  have d: "queue_getJob queue_one ''2'' = None"
    by (simp add: queue_getJob_def queue_one_def)
  have e: "queue_getJob (snd (post_publish_youtube queue_add no_env repeat_submission queue_one)) ''2''
        \<noteq> None"
    by (simp add: post_queue_add_getJob n)
  have f: "json (fst (post_publish_youtube queue_add no_env repeat_submission queue_one))
        = JObj [(''jobId'', JStr ''2'')]"
    by (simp add: post_queue_add_response n)
  have g: "snd (post_publish_youtube queue_add no_env repeat_submission queue_one) \<noteq> queue_one"
    using d e by auto
  from a b c d e f g show ?thesis by (simp only: simp_thms)
qed

text \<open>
  C2, as the handler has it. The handler checks no field of a submission. For every body
  that reaches it as a parsed object, also one that lacks the account identifier or the
  file location, it calls \<^verbatim>\<open>queue.add\<close>, and a property the body lacks is passed as
  \<^verbatim>\<open>undefined\<close>. With the queue the answer is status 200 with the identifier of the new
  job, which is stored with the five properties as read from the body. Over any queue, when \<^verbatim>\<open>queue.add\<close> resolves to a job the answer is status 200 with that job's
  identifier, and when it throws the answer is status 400 with the message thrown.
\<close>

theorem submission_not_validated:
  "fst (post_publish_youtube queue_add e body q)
     = \<lparr>status = 200, json = JObj [(''jobId'', JStr (show_nat (Suc (counter q))))]\<rparr>
   \<and> map_option (\<lambda>j. (get (data j) ''accountId'', get (data j) ''filePath'',
                        get (data j) ''thumbnailPath'', get (data j) ''metadata'',
                        get (data j) ''idempotencyKey''))
        (queue_getJob (snd (post_publish_youtube queue_add e body q))
           (show_nat (Suc (counter q))))
       = Some (getprop body ''accountId'', getprop body ''filePath'',
               getprop body ''thumbnailPath'', getprop body ''metadata'',
               getprop body ''idempotencyKey'')
   \<and> (map_of body k = None \<longrightarrow> getprop body k = JUndefined)
   \<and> (\<forall>j p'. add ''youtube-upload'' (job_data e body) (job_opts e) p = (Inr j, p') \<longrightarrow>
          post_publish_youtube add e body p
            = (\<lparr>status = 200, json = JObj [(''jobId'', JStr (job_id j))]\<rparr>, p'))
   \<and> (\<forall>msg p'. add ''youtube-upload'' (job_data e body) (job_opts e) p = (Inl msg, p') \<longrightarrow>
          post_publish_youtube add e body p
            = (\<lparr>status = 400, json = JObj [(''error'', JStr msg)]\<rparr>, p'))"
proof -
  have a: "fst (post_publish_youtube queue_add e body q)
     = \<lparr>status = 200, json = JObj [(''jobId'', JStr (show_nat (Suc (counter q))))]\<rparr>"
    by (rule post_queue_add_response)
  have b: "map_option (\<lambda>j. (get (data j) ''accountId'', get (data j) ''filePath'',
                        get (data j) ''thumbnailPath'', get (data j) ''metadata'',
                        get (data j) ''idempotencyKey''))
        (queue_getJob (snd (post_publish_youtube queue_add e body q))
           (show_nat (Suc (counter q))))
       = Some (getprop body ''accountId'', getprop body ''filePath'',
               getprop body ''thumbnailPath'', getprop body ''metadata'',
               getprop body ''idempotencyKey'')"
    by (simp add: post_queue_add_getJob job_data_def getprop_def)
  have c: "map_of body k = None \<longrightarrow> getprop body k = JUndefined"
    by (simp add: getprop_def)
  have f: "\<forall>j p'. add ''youtube-upload'' (job_data e body) (job_opts e) p = (Inr j, p') \<longrightarrow>
          post_publish_youtube add e body p
            = (\<lparr>status = 200, json = JObj [(''jobId'', JStr (job_id j))]\<rparr>, p')"
    by (simp add: post_publish_youtube_def)
  have g: "\<forall>msg p'. add ''youtube-upload'' (job_data e body) (job_opts e) p = (Inl msg, p') \<longrightarrow>
          post_publish_youtube add e body p
            = (\<lparr>status = 400, json = JObj [(''error'', JStr msg)]\<rparr>, p')"
    by (simp add: post_publish_youtube_def)
  from a b c f g show ?thesis by (simp only: simp_thms)
qed

text \<open>
  The theorem at a body without file location: with the queue that holds job \<open>1\<close> it
  is enqueued as job \<open>2\<close> with an \<^verbatim>\<open>undefined\<close> file path, and with a queue client
  whose connection is closed the answer is status 400 with that client's message.
\<close>

theorem submission_not_validated_witness:
  "map_of partial_submission ''filePath'' = None
   \<and> getprop partial_submission ''filePath'' = JUndefined
   \<and> fst (post_publish_youtube queue_add no_env partial_submission queue_one)
       = \<lparr>status = 200, json = JObj [(''jobId'', JStr ''2'')]\<rparr>
   \<and> map_option (\<lambda>j. (get (data j) ''accountId'', get (data j) ''filePath'',
                        get (data j) ''thumbnailPath'', get (data j) ''metadata'',
                        get (data j) ''idempotencyKey''))
        (queue_getJob (snd (post_publish_youtube queue_add no_env partial_submission queue_one))
           ''2'')
       = Some (JStr ''acct-1'', JUndefined, JUndefined, JUndefined, JUndefined)
   \<and> closed_add ''youtube-upload'' (job_data no_env partial_submission) (job_opts no_env)
        queue_one
       = (Inl ''Connection is closed.'', queue_one)
   \<and> post_publish_youtube closed_add no_env partial_submission queue_one
       = (\<lparr>status = 400, json = JObj [(''error'', JStr ''Connection is closed.'')]\<rparr>, queue_one)"
proof -
  note t = submission_not_validated [where e = no_env and body = partial_submission
      and q = queue_one and add = closed_add and p = queue_one and k = "''filePath''"]
  have n: "show_nat (Suc (counter queue_one)) = ''2''"
    by (simp add: queue_one_def show_nat_two)
  have m: "map_of partial_submission ''filePath'' = None"
    by (simp add: partial_submission_def)
  have v: "getprop partial_submission ''accountId'' = JStr ''acct-1''"
    "getprop partial_submission ''thumbnailPath'' = JUndefined"
    "getprop partial_submission ''metadata'' = JUndefined"
    "getprop partial_submission ''idempotencyKey'' = JUndefined"
    by (simp_all add: partial_submission_def getprop_def)
  have h: "closed_add ''youtube-upload'' (job_data no_env partial_submission) (job_opts no_env)
        queue_one = (Inl ''Connection is closed.'', queue_one)"
    by (simp add: closed_add_def)
  from t m have u: "getprop partial_submission ''filePath'' = JUndefined" by blast
  from t have "fst (post_publish_youtube queue_add no_env partial_submission queue_one)
       = \<lparr>status = 200, json = JObj [(''jobId'', JStr (show_nat (Suc (counter queue_one))))]\<rparr>"
    by blast
  then have a: "fst (post_publish_youtube queue_add no_env partial_submission queue_one)
       = \<lparr>status = 200, json = JObj [(''jobId'', JStr ''2'')]\<rparr>"
    by (simp only: n)
  from t have "map_option (\<lambda>j. (get (data j) ''accountId'', get (data j) ''filePath'',
                        get (data j) ''thumbnailPath'', get (data j) ''metadata'',
                        get (data j) ''idempotencyKey''))
        (queue_getJob (snd (post_publish_youtube queue_add no_env partial_submission queue_one))
           (show_nat (Suc (counter queue_one))))
       = Some (getprop partial_submission ''accountId'', getprop partial_submission ''filePath'',
               getprop partial_submission ''thumbnailPath'', getprop partial_submission ''metadata'',
               getprop partial_submission ''idempotencyKey'')"
    by blast
  then have b: "map_option (\<lambda>j. (get (data j) ''accountId'', get (data j) ''filePath'',
                        get (data j) ''thumbnailPath'', get (data j) ''metadata'',
                        get (data j) ''idempotencyKey''))
        (queue_getJob (snd (post_publish_youtube queue_add no_env partial_submission queue_one))
           ''2'')
       = Some (JStr ''acct-1'', JUndefined, JUndefined, JUndefined, JUndefined)"
    by (simp only: n u v)
  from t h have c: "post_publish_youtube closed_add no_env partial_submission queue_one
       = (\<lparr>status = 400, json = JObj [(''error'', JStr ''Connection is closed.'')]\<rparr>, queue_one)"
    by blast
  from m u a b h c show ?thesis by (simp only: simp_thms)
qed

text \<open>
  C2 as the spec states it fails at the body \<^verbatim>\<open>{}\<close>: it has no account identifier and
  no file location, the answer is status 200 with job identifier \<open>1\<close>, and the queue,
  which had no job \<open>1\<close>, has one afterwards.
\<close>

theorem malformed_submission_counterexample:
  "getprop empty_submission ''accountId'' = JUndefined
   \<and> getprop empty_submission ''filePath'' = JUndefined
   \<and> fst (post_publish_youtube queue_add no_env empty_submission empty_queue)
       = \<lparr>status = 200, json = JObj [(''jobId'', JStr ''1'')]\<rparr>
   \<and> queue_getJob empty_queue ''1'' = None
   \<and> queue_getJob (snd (post_publish_youtube queue_add no_env empty_submission empty_queue)) ''1''
       \<noteq> None"
proof -
  have n: "show_nat (Suc (counter empty_queue)) = ''1''"
    by (simp add: empty_queue_def show_nat_one)
  have a: "getprop empty_submission ''accountId'' = JUndefined"
    by (simp add: empty_submission_def getprop_def)
  have b: "getprop empty_submission ''filePath'' = JUndefined"
    by (simp add: empty_submission_def getprop_def)
  have c: "fst (post_publish_youtube queue_add no_env empty_submission empty_queue)
       = \<lparr>status = 200, json = JObj [(''jobId'', JStr ''1'')]\<rparr>"
    by (simp add: post_queue_add_response n)
  have d: "queue_getJob empty_queue ''1'' = None"
    by (simp add: queue_getJob_def empty_queue_def)
  have e: "queue_getJob (snd (post_publish_youtube queue_add no_env empty_submission empty_queue)) ''1''
       \<noteq> None"
    by (simp add: post_queue_add_getJob n)
  from a b c d e show ?thesis by (simp only: simp_thms)
qed

section \<open>Status inquiry\<close>

text \<open>
  C3, as the handler has it. For a job that exists, the object handed to \<^verbatim>\<open>res.json\<close>
  has status 200 and exactly the properties \<^verbatim>\<open>id\<close>, \<^verbatim>\<open>state\<close>, \<^verbatim>\<open>progress\<close> and
  \<^verbatim>\<open>data\<close>: the job's identifier, the state the queue reports for it (passed through as
  it is), its progress or 0, and its raw job data. There is no \<^verbatim>\<open>error\<close> property.
\<close>

theorem status_response_fields:
  assumes "getJob q i = Some j"
  shows "status (get_jobs_id getJob q i) = 200
       \<and> keys (json (get_jobs_id getJob q i)) = [''id'', ''state'', ''progress'', ''data'']
       \<and> get (json (get_jobs_id getJob q i)) ''id'' = JStr (job_id j)
       \<and> get (json (get_jobs_id getJob q i)) ''state'' = JStr (getState j)
       \<and> get (json (get_jobs_id getJob q i)) ''progress'' = js_or (progress j) (JNum 0)
       \<and> get (json (get_jobs_id getJob q i)) ''data'' = data j
       \<and> get (json (get_jobs_id getJob q i)) ''error'' = JUndefined"
  using assms by (simp add: get_jobs_id_def getprop_def)

text \<open>
  The theorem at the completed job \<open>1\<close>.
\<close>

theorem status_response_fields_witness:
  "queue_getJob queue_one ''1'' = Some completed_job
   \<and> status (get_jobs_id queue_getJob queue_one ''1'') = 200
   \<and> keys (json (get_jobs_id queue_getJob queue_one ''1'')) = [''id'', ''state'', ''progress'', ''data'']
   \<and> get (json (get_jobs_id queue_getJob queue_one ''1'')) ''id'' = JStr ''1''
   \<and> get (json (get_jobs_id queue_getJob queue_one ''1'')) ''state'' = JStr ''completed''
   \<and> get (json (get_jobs_id queue_getJob queue_one ''1'')) ''progress'' = JNum 100
   \<and> get (json (get_jobs_id queue_getJob queue_one ''1'')) ''data'' = data completed_job
   \<and> get (json (get_jobs_id queue_getJob queue_one ''1'')) ''error'' = JUndefined"
proof -
  have h: "queue_getJob queue_one ''1'' = Some completed_job"
    by (simp add: queue_getJob_def queue_one_def)
  have v: "job_id completed_job = ''1''" "getState completed_job = ''completed''"
    "js_or (progress completed_job) (JNum 0) = JNum 100"
    by (simp_all add: completed_job_def js_or_def)
  show ?thesis
    using status_response_fields [of queue_getJob queue_one "''1''" completed_job, OF h] h
    by (simp only: v simp_thms)
qed

text \<open>
  C3 as the spec states it fails at the completed job \<open>1\<close>: the response has a property
  \<^verbatim>\<open>data\<close>, which is none of \<^verbatim>\<open>id\<close>, \<^verbatim>\<open>state\<close>, \<^verbatim>\<open>progress\<close>, \<^verbatim>\<open>error\<close>, and it holds
  the raw job data.
\<close>

theorem status_response_counterexample:
  "queue_getJob queue_one ''1'' = Some completed_job
   \<and> ''data'' \<in> set (keys (json (get_jobs_id queue_getJob queue_one ''1'')))
   \<and> ''data'' \<notin> {''id'', ''state'', ''progress'', ''error''}
   \<and> get (json (get_jobs_id queue_getJob queue_one ''1'')) ''data''
       = JObj [(''accountId'', JStr ''acct-1''),
               (''filePath'', JStr ''/videos/a.mp4''),
               (''thumbnailPath'', JUndefined),
               (''metadata'', JUndefined),
               (''idempotencyKey'', JStr ''key-1''),
               (''uploadedBytes'', JNum 0),
               (''chunkSize'', JNum 8388608)]"
  by (simp add: get_jobs_id_def queue_getJob_def queue_one_def completed_job_def getprop_def)

section \<open>Job options\<close>

text \<open>
  C4. When neither \<^verbatim>\<open>CHUNK_SIZE\<close> nor \<^verbatim>\<open>MAX_RETRIES\<close> is set in the environment, the
  job that a submission enqueues has chunk size 8388608, attempt count 5, and exponential
  backoff with delay 2000.
\<close>

theorem default_job_options:
  assumes "e ''CHUNK_SIZE'' = None" and "e ''MAX_RETRIES'' = None"
  shows "map_option
           (\<lambda>j. (get (data j) ''chunkSize'', get (opts j) ''attempts'', get (opts j) ''backoff''))
           (queue_getJob (snd (post_publish_youtube queue_add e body q))
              (show_nat (Suc (counter q))))
         = Some (JNum 8388608, JNum 5,
                 JObj [(''type'', JStr ''exponential''), (''delay'', JNum 2000)])"
proof -
  have c: "get (job_data e body) ''chunkSize'' = JNum 8388608"
    using assms(1)
    by (simp add: job_data_def getprop_def env_or_unset parseInt_default_chunk)
  have a: "get (job_opts e) ''attempts'' = JNum 5"
    using assms(2)
    by (simp add: job_opts_def getprop_def env_or_unset parseInt_default_attempts)
  have b: "get (job_opts e) ''backoff''
           = JObj [(''type'', JStr ''exponential''), (''delay'', JNum 2000)]"
    by (simp add: job_opts_def getprop_def)
  show ?thesis
    by (simp add: post_queue_add_getJob a b c)
qed

text \<open>
  The theorem at the empty environment and the empty queue.
\<close>

theorem default_job_options_witness:
  "no_env ''CHUNK_SIZE'' = None \<and> no_env ''MAX_RETRIES'' = None
   \<and> map_option
        (\<lambda>j. (get (data j) ''chunkSize'', get (opts j) ''attempts'', get (opts j) ''backoff''))
        (queue_getJob (snd (post_publish_youtube queue_add no_env repeat_submission empty_queue))
           ''1'')
      = Some (JNum 8388608, JNum 5,
              JObj [(''type'', JStr ''exponential''), (''delay'', JNum 2000)])"
proof -
  have h1: "no_env ''CHUNK_SIZE'' = None" and h2: "no_env ''MAX_RETRIES'' = None"
    by (simp_all add: no_env_def)
  have n: "show_nat (Suc (counter empty_queue)) = ''1''"
    by (simp add: empty_queue_def show_nat_one)
  show ?thesis
    using default_job_options [OF h1 h2, of repeat_submission empty_queue] h1 h2
    by (simp only: n simp_thms)
qed

text \<open>
  C5, as the handler has it. The chunk size of a job is
  \<^verbatim>\<open>parseInt(process.env.CHUNK_SIZE || '8388608')\<close>, a value of the process: it is the
  same for every body, and a \<^verbatim>\<open>chunkSize\<close> in the body is not read.
\<close>

theorem chunk_size_from_environment:
  "map_option (\<lambda>j. get (data j) ''chunkSize'')
     (queue_getJob (snd (post_publish_youtube queue_add e body q))
        (show_nat (Suc (counter q))))
   = Some (parseInt (env_or e ''CHUNK_SIZE'' ''8388608''))"
  by (simp add: post_queue_add_getJob job_data_def getprop_def)

text \<open>
  C5 as the spec states it fails at a submission with \<^verbatim>\<open>chunkSize: 1048576\<close>: the job
  it creates has chunk size 8388608.
\<close>

theorem caller_chunk_size_counterexample:
  "getprop chunked_submission ''chunkSize'' = JNum 1048576
   \<and> map_option (\<lambda>j. get (data j) ''chunkSize'')
        (queue_getJob (snd (post_publish_youtube queue_add no_env chunked_submission empty_queue))
           ''1'')
      = Some (JNum 8388608)
   \<and> fst (post_publish_youtube queue_add no_env chunked_submission empty_queue)
      = \<lparr>status = 200, json = JObj [(''jobId'', JStr ''1'')]\<rparr>"
proof -
  have n: "show_nat (Suc (counter empty_queue)) = ''1''"
    by (simp add: empty_queue_def show_nat_one)
  have a: "getprop chunked_submission ''chunkSize'' = JNum 1048576"
    by (simp add: chunked_submission_def getprop_def)
  have "env_or no_env ''CHUNK_SIZE'' ''8388608'' = ''8388608''"
    by (simp add: env_or_def no_env_def)
  then have c: "get (job_data no_env chunked_submission) ''chunkSize'' = JNum 8388608"
    by (simp add: job_data_def getprop_def parseInt_default_chunk)
  have b: "map_option (\<lambda>j. get (data j) ''chunkSize'')
        (queue_getJob (snd (post_publish_youtube queue_add no_env chunked_submission empty_queue))
           ''1'')
      = Some (JNum 8388608)"
    by (simp add: post_queue_add_getJob n c)
  have d: "fst (post_publish_youtube queue_add no_env chunked_submission empty_queue)
      = \<lparr>status = 200, json = JObj [(''jobId'', JStr ''1'')]\<rparr>"
    by (simp add: post_queue_add_response n)
  from a b d show ?thesis by (simp only: simp_thms)
qed

section \<open>The answer to a submission\<close>

text \<open>
  C6. When \<^verbatim>\<open>queue.add\<close> resolves to a job, the answer is status 200 with that job's
  identifier as \<^verbatim>\<open>jobId\<close>, over any queue. With the queue, an inquiry for the identifier
  that was answered finds the job: status 200, with the same identifier as \<^verbatim>\<open>id\<close>.
\<close>

theorem submission_answers_job_id:
  assumes "add ''youtube-upload'' (job_data e body) (job_opts e) q = (Inr j, q')"
  shows "post_publish_youtube add e body q
           = (\<lparr>status = 200, json = JObj [(''jobId'', JStr (job_id j))]\<rparr>, q')
       \<and> get (json (get_jobs_id queue_getJob
                 (snd (post_publish_youtube queue_add e body p))
                 (show_nat (Suc (counter p))))) ''id''
         = get (json (fst (post_publish_youtube queue_add e body p))) ''jobId''
       \<and> status (get_jobs_id queue_getJob
                 (snd (post_publish_youtube queue_add e body p))
                 (show_nat (Suc (counter p)))) = 200
       \<and> get (json (fst (post_publish_youtube queue_add e body p))) ''jobId''
         = JStr (show_nat (Suc (counter p)))"
proof -
  have a: "post_publish_youtube add e body q
           = (\<lparr>status = 200, json = JObj [(''jobId'', JStr (job_id j))]\<rparr>, q')"
    using assms by (simp add: post_publish_youtube_def)
  have b: "get (json (fst (post_publish_youtube queue_add e body p))) ''jobId''
         = JStr (show_nat (Suc (counter p)))"
    by (simp add: post_queue_add_response getprop_def)
  have c: "get (json (get_jobs_id queue_getJob
                 (snd (post_publish_youtube queue_add e body p))
                 (show_nat (Suc (counter p))))) ''id''
         = JStr (show_nat (Suc (counter p)))"
    by (simp add: get_jobs_id_def post_queue_add_getJob getprop_def)
  have d: "status (get_jobs_id queue_getJob
                 (snd (post_publish_youtube queue_add e body p))
                 (show_nat (Suc (counter p)))) = 200"
    by (simp add: get_jobs_id_def post_queue_add_getJob)
  from a b c d show ?thesis by (simp only: simp_thms)
qed

text \<open>
  The theorem at the queue that holds job \<open>1\<close>: the new job is \<open>2\<close>.
\<close>

theorem submission_answers_job_id_witness:
  "fst (queue_add ''youtube-upload'' (job_data no_env repeat_submission) (job_opts no_env) queue_one)
     = Inr \<lparr>job_id = ''2'', job_name = ''youtube-upload'',
             data = job_data no_env repeat_submission, opts = job_opts no_env,
             progress = JNum 0, getState = ''queued''\<rparr>
   \<and> fst (post_publish_youtube queue_add no_env repeat_submission queue_one)
     = \<lparr>status = 200, json = JObj [(''jobId'', JStr ''2'')]\<rparr>
   \<and> get (json (get_jobs_id queue_getJob
             (snd (post_publish_youtube queue_add no_env repeat_submission queue_one)) ''2'')) ''id''
     = JStr ''2''"
proof -
  define j where "j = \<lparr>job_id = ''2'', job_name = ''youtube-upload'',
             data = job_data no_env repeat_submission, opts = job_opts no_env,
             progress = JNum 0, getState = ''queued''\<rparr>"
  define q' where "q' = queue_one\<lparr>counter := Suc (counter queue_one),
             jobs := (jobs queue_one)(''2'' \<mapsto> j)\<rparr>"
  have n: "show_nat (Suc (counter queue_one)) = ''2''"
    by (simp add: queue_one_def show_nat_two)
  have h: "queue_add ''youtube-upload'' (job_data no_env repeat_submission) (job_opts no_env)
             queue_one = (Inr j, q')"
    by (simp add: queue_add_def Let_def n j_def q'_def)
  have i: "job_id j = ''2''" by (simp add: j_def)
  note t = submission_answers_job_id [where add = queue_add and e = no_env
      and body = repeat_submission and q = queue_one and p = queue_one, OF h, unfolded n i]
  from t have "post_publish_youtube queue_add no_env repeat_submission queue_one
           = (\<lparr>status = 200, json = JObj [(''jobId'', JStr ''2'')]\<rparr>, q')"
    and "get (json (get_jobs_id queue_getJob
                 (snd (post_publish_youtube queue_add no_env repeat_submission queue_one))
                 ''2'')) ''id''
         = get (json (fst (post_publish_youtube queue_add no_env repeat_submission queue_one))) ''jobId''"
    and "get (json (fst (post_publish_youtube queue_add no_env repeat_submission queue_one))) ''jobId''
         = JStr ''2''"
    by blast+
  with h show ?thesis by (simp add: j_def)
qed

text \<open>
  C8. The data of the enqueued job has \<^verbatim>\<open>uploadedBytes\<close> 0, for every body, also one
  that has an \<^verbatim>\<open>uploadedBytes\<close> property of its own.
\<close>

theorem uploaded_bytes_start_at_zero:
  "get (job_data e body) ''uploadedBytes'' = JNum 0
   \<and> map_option (\<lambda>j. get (data j) ''uploadedBytes'')
        (queue_getJob (snd (post_publish_youtube queue_add e body q))
           (show_nat (Suc (counter q))))
      = Some (JNum 0)"
  by (simp add: post_queue_add_getJob job_data_def getprop_def)

text \<open>
  The theorem at a submission whose body says \<^verbatim>\<open>uploadedBytes: 500\<close>.
\<close>

theorem uploaded_bytes_start_at_zero_witness:
  "getprop resumed_submission ''uploadedBytes'' = JNum 500
   \<and> map_option (\<lambda>j. get (data j) ''uploadedBytes'')
        (queue_getJob (snd (post_publish_youtube queue_add no_env resumed_submission empty_queue))
           ''1'')
      = Some (JNum 0)"
proof -
  have n: "show_nat (Suc (counter empty_queue)) = ''1''"
    by (simp add: empty_queue_def show_nat_one)
  have b: "getprop resumed_submission ''uploadedBytes'' = JNum 500"
    by (simp add: resumed_submission_def getprop_def)
  from uploaded_bytes_start_at_zero [of no_env resumed_submission empty_queue]
  have "map_option (\<lambda>j. get (data j) ''uploadedBytes'')
        (queue_getJob (snd (post_publish_youtube queue_add no_env resumed_submission empty_queue))
           ''1'')
      = Some (JNum 0)"
    by (simp only: n)
  with b show ?thesis by (simp only: simp_thms)
qed

section \<open>Inquiries\<close>

text \<open>
  C9. An inquiry for an identifier under which the queue has no job is answered with
  status 404 and the error message \<^verbatim>\<open>Job not found\<close>.
\<close>

theorem unknown_job_not_found:
  assumes "getJob q i = None"
  shows "get_jobs_id getJob q i
         = \<lparr>status = 404, json = JObj [(''error'', JStr ''Job not found'')]\<rparr>"
  using assms by (simp add: get_jobs_id_def)

text \<open>
  The theorem at the identifier \<open>99\<close>, which the queue with job \<open>1\<close> does not have.
\<close>

theorem unknown_job_not_found_witness:
  "queue_getJob queue_one ''99'' = None
   \<and> get_jobs_id queue_getJob queue_one ''99''
       = \<lparr>status = 404, json = JObj [(''error'', JStr ''Job not found'')]\<rparr>"
proof -
  have h: "queue_getJob queue_one ''99'' = None"
    by (simp add: queue_getJob_def queue_one_def)
  show ?thesis
    using unknown_job_not_found [of queue_getJob queue_one "''99''", OF h] h
    by (simp only: simp_thms)
qed

text \<open>
  C10. For a job that exists, a progress value that is falsy, such as \<^verbatim>\<open>null\<close>,
  \<^verbatim>\<open>undefined\<close> or 0, is reported as 0, and the reported progress is never \<^verbatim>\<open>null\<close>
  or \<^verbatim>\<open>undefined\<close>.
\<close>

theorem falsy_progress_reported_as_zero:
  assumes "getJob q i = Some j"
  shows "(\<not> truthy (progress j) \<longrightarrow>
            get (json (get_jobs_id getJob q i)) ''progress'' = JNum 0)
       \<and> (progress j = JNull \<or> progress j = JUndefined \<or> progress j = JNum 0 \<longrightarrow>
            get (json (get_jobs_id getJob q i)) ''progress'' = JNum 0)
       \<and> get (json (get_jobs_id getJob q i)) ''progress'' \<noteq> JNull
       \<and> get (json (get_jobs_id getJob q i)) ''progress'' \<noteq> JUndefined"
proof -
  have p: "get (json (get_jobs_id getJob q i)) ''progress'' = js_or (progress j) (JNum 0)"
    using assms by (simp add: get_jobs_id_def getprop_def)
  have "js_or (progress j) (JNum 0) \<noteq> JNull" "js_or (progress j) (JNum 0) \<noteq> JUndefined"
    by (cases "progress j"; simp add: js_or_def)+
  moreover have "\<not> truthy (progress j) \<longrightarrow> js_or (progress j) (JNum 0) = JNum 0"
    by (simp add: js_or_def)
  moreover have "progress j = JNull \<or> progress j = JUndefined \<or> progress j = JNum 0
      \<longrightarrow> js_or (progress j) (JNum 0) = JNum 0"
    by (auto simp add: js_or_def)
  ultimately show ?thesis by (simp only: p simp_thms)
qed

text \<open>
  The theorem at job \<open>7\<close>, whose progress is \<^verbatim>\<open>undefined\<close>.
\<close>

theorem falsy_progress_reported_as_zero_witness:
  "queue_getJob queue_seven ''7'' = Some fresh_job
   \<and> progress fresh_job = JUndefined
   \<and> \<not> truthy (progress fresh_job)
   \<and> get (json (get_jobs_id queue_getJob queue_seven ''7'')) ''progress'' = JNum 0"
proof -
  have h: "queue_getJob queue_seven ''7'' = Some fresh_job"
    by (simp add: queue_getJob_def queue_seven_def)
  have u: "progress fresh_job = JUndefined" by (simp add: fresh_job_def)
  then have f: "\<not> truthy (progress fresh_job)" by simp
  from falsy_progress_reported_as_zero [of queue_getJob queue_seven "''7''" fresh_job, OF h] f
  have "get (json (get_jobs_id queue_getJob queue_seven ''7'')) ''progress'' = JNum 0"
    by blast
  with h u f show ?thesis by (simp only: simp_thms)
qed

section \<open>Progress reports\<close>

text \<open>
  C7, on the model of \<^verbatim>\<open>reportProgress\<close>. For a job whose recorded offset is at most
  its total size, as it is at creation with offset 0, the offsets recorded after each of
  any sequence of reports are non-decreasing, none exceeds the total size, and a report
  lower than the recorded offset leaves it unchanged and is not acknowledged as accepted,
  under either policy.
\<close>

theorem progress_reports_monotone:
  assumes "uploadedBytes u \<le> totalBytes u"
  shows "sorted (map uploadedBytes (u # reports pol u bs))
       \<and> (\<forall>v \<in> set (reports pol u bs). uploadedBytes v \<le> totalBytes u)
       \<and> (\<forall>b. b < uploadedBytes u \<longrightarrow>
             snd (reportProgress pol u b) = u \<and> fst (reportProgress pol u b) \<noteq> Accepted)"
proof -
  have "\<forall>v \<in> set (reports pol u bs). uploadedBytes v \<le> totalBytes u"
    using reports_bounds [OF assms, of pol bs] by auto
  moreover have "\<forall>b. b < uploadedBytes u \<longrightarrow>
             snd (reportProgress pol u b) = u \<and> fst (reportProgress pol u b) \<noteq> Accepted"
    using lower_report_kept_out by blast
  ultimately show ?thesis using reports_sorted [OF assms] by blast
qed

text \<open>
  The theorem at a job of 20 bytes and the reports 8, 16, 4, 30 under clamping: the
  recorded offsets are 8, 16, 16, 20; and the report 4 after 16 under rejection.
\<close>

theorem progress_reports_monotone_witness:
  "uploadedBytes \<lparr>uploadedBytes = 0, totalBytes = 20\<rparr> \<le> totalBytes \<lparr>uploadedBytes = 0, totalBytes = 20\<rparr>
   \<and> map uploadedBytes (reports Clamp \<lparr>uploadedBytes = 0, totalBytes = 20\<rparr> [8, 16, 4, 30])
       = [8, 16, 16, 20]
   \<and> sorted (map uploadedBytes
        (\<lparr>uploadedBytes = 0, totalBytes = 20\<rparr>
           # reports Clamp \<lparr>uploadedBytes = 0, totalBytes = 20\<rparr> [8, 16, 4, 30]))
   \<and> reportProgress Reject \<lparr>uploadedBytes = 16, totalBytes = 20\<rparr> 4
       = (Rejected, \<lparr>uploadedBytes = 16, totalBytes = 20\<rparr>)"
proof -
  have h: "uploadedBytes \<lparr>uploadedBytes = 0, totalBytes = 20\<rparr>
             \<le> totalBytes \<lparr>uploadedBytes = 0, totalBytes = 20\<rparr>" by simp
  have r: "map uploadedBytes (reports Clamp \<lparr>uploadedBytes = 0, totalBytes = 20\<rparr> [8, 16, 4, 30])
       = [8, 16, 16, 20]"
    by (simp add: reportProgress_def Let_def)
  have k: "reportProgress Reject \<lparr>uploadedBytes = 16, totalBytes = 20\<rparr> 4
       = (Rejected, \<lparr>uploadedBytes = 16, totalBytes = 20\<rparr>)"
    by (simp add: reportProgress_def)
  from progress_reports_monotone [OF h, of Clamp "[8, 16, 4, 30]"]
  have "sorted (map uploadedBytes
        (\<lparr>uploadedBytes = 0, totalBytes = 20\<rparr>
           # reports Clamp \<lparr>uploadedBytes = 0, totalBytes = 20\<rparr> [8, 16, 4, 30]))"
    by (rule conjunct1)
  with h r k show ?thesis by (simp only: simp_thms)
qed

end
